theory Spec2Isabelle
  imports Main
begin

section \<open>Values shared by the components\<close>

text \<open>
  Errors of the toolkit's exception hierarchy and of the remote SDK, as values. An
  exception object carries its class, its \<open>code\<close>, the correlation id it was built
  with, its details (\<open>withDetails\<close>) and its cause (\<open>withCause\<close>).
\<close>

datatype error_class =
    UnknownException
  | InvocationException
  | BadRequestException
  | ConfigException
  | TypeError
  | SyntaxError
  | RemoteError

datatype error = Error
  (err_class: error_class)
  (err_correlation_id: "string option")
  (err_code: string)
  (err_message: string)
  (err_details: "(string \<times> string) list")
  (err_cause: "error option")

definition withDetails :: "string \<Rightarrow> string \<Rightarrow> error \<Rightarrow> error" where
  "withDetails key v e =
     Error (err_class e) (err_correlation_id e) (err_code e) (err_message e)
       (err_details e @ [(key, v)]) (err_cause e)"

definition withCause :: "error \<Rightarrow> error \<Rightarrow> error" where
  "withCause cause e =
     Error (err_class e) (err_correlation_id e) (err_code e) (err_message e)
       (err_details e) (Some cause)"

text \<open>
  The connection descriptor handed out by the connection resolver. The resolver and the
  descriptor class live outside the files verified here; the components only read these
  four accessors.
\<close>

record AwsConnectionParams =
  getArn :: "string option"
  getRegion :: "string option"
  getAccessId :: "string option"
  getAccessKey :: "string option"

section \<open>CloudWatchCounters\<close>

subsection \<open>Counter snapshots and metric data points\<close>

datatype CounterType =
    CounterType_Interval
  | CounterType_LastValue
  | CounterType_Statistics
  | CounterType_Timestamp
  | CounterType_Increment

text \<open>
  A JavaScript \<open>Date\<close> is read only through \<open>getTime()\<close>, its epoch milliseconds.
  Numbers are kept abstract: the only arithmetic \<open>getCounterData\<close> performs is one
  product, written with the \<open>times\<close> of the number type.
\<close>

datatype 'n Date = Date (getTime: 'n)

record 'n Counter =
  counter_name :: string
  counter_type :: CounterType
  counter_last :: 'n
  counter_count :: 'n
  counter_min :: 'n
  counter_max :: 'n
  counter_average :: 'n
  counter_time :: "'n Date"

definition CloudWatchUnit_Milliseconds :: string where
  "CloudWatchUnit_Milliseconds = ''Milliseconds''"

definition CloudWatchUnit_Count :: string where
  "CloudWatchUnit_Count = ''Count''"

definition CloudWatchUnit_None :: string where
  "CloudWatchUnit_None = ''None''"

record Dimension =
  dim_Name :: string
  dim_Value :: "string option"

record 'n StatisticSet =
  SampleCount :: 'n
  Maximum :: 'n
  Minimum :: 'n
  Sum :: 'n

record 'n MetricDatum =
  MetricName :: string
  Timestamp :: "'n Date"
  Dimensions :: "Dimension list"
  Unit :: string
  Value :: "'n option"
  StatisticValues :: "'n StatisticSet option"

definition getCounterData ::
  "('n::times) Counter \<Rightarrow> 'n Date \<Rightarrow> Dimension list \<Rightarrow> 'n MetricDatum" where
  "getCounterData counter now dimensions =
    (let v = \<lparr> MetricName = counter_name counter,
                 Timestamp = counter_time counter,
                 Dimensions = dimensions,
                 Unit = CloudWatchUnit_None,
                 Value = None,
                 StatisticValues = None \<rparr>
     in case counter_type counter of
          CounterType_Increment \<Rightarrow>
            v\<lparr> Value := Some (counter_count counter), Unit := CloudWatchUnit_Count \<rparr>
        | CounterType_Interval \<Rightarrow>
            v\<lparr> Unit := CloudWatchUnit_Milliseconds,
               StatisticValues := Some \<lparr> SampleCount = counter_count counter,
                                          Maximum = counter_max counter,
                                          Minimum = counter_min counter,
                                          Sum = counter_count counter * counter_average counter \<rparr> \<rparr>
        | CounterType_Statistics \<Rightarrow>
            v\<lparr> StatisticValues := Some \<lparr> SampleCount = counter_count counter,
                                          Maximum = counter_max counter,
                                          Minimum = counter_min counter,
                                          Sum = counter_count counter * counter_average counter \<rparr> \<rparr>
        | CounterType_LastValue \<Rightarrow> v\<lparr> Value := Some (counter_last counter) \<rparr>
        | CounterType_Timestamp \<Rightarrow> v\<lparr> Value := Some (getTime (counter_time counter)) \<rparr>)"

subsection \<open>Component state, open and close\<close>

datatype CloudWatch = CloudWatch (apiVersion: string)

record CloudWatchCounters =
  counters_connection :: "AwsConnectionParams option"
  counters_connectTimeout :: int
  counters_client :: "CloudWatch option"
  counters_opened :: bool
  counters_source :: "string option"
  counters_instance :: "string option"

definition new_CloudWatchCounters :: CloudWatchCounters where
  "new_CloudWatchCounters =
     \<lparr> counters_connection = None, counters_connectTimeout = 30000,
       counters_client = None, counters_opened = False,
       counters_source = None, counters_instance = None \<rparr>"

record 'n PutMetricDataInput =
  MetricData :: "'n MetricDatum list"
  Namespace :: "string option"

text \<open>
  What \<open>open\<close> and \<open>close\<close> do to the outside world, in the order they do it: a call
  of the connection resolver, the construction of the SDK client, an invocation of the
  caller's callback, an exception leaving the component.
\<close>

datatype counters_event =
    Resolve "string option"
  | NewCloudWatch
  | Callback "error option"
  | Throw error

definition TypeError_thrown :: error where
  "TypeError_thrown = Error TypeError None [] [] [] None"

definition counters_isOpen :: "CloudWatchCounters \<Rightarrow> bool" where
  "counters_isOpen c = counters_opened c"

definition invoke_callback :: "bool \<Rightarrow> error option \<Rightarrow> counters_event list" where
  "invoke_callback callback err = (if callback then [Callback err] else [])"

text \<open>
  \<open>open(correlationId, callback)\<close>. \<open>callback\<close> says whether the caller passed one.
  \<open>resolved\<close> is the pair \<open>(err, connection)\<close> the connection resolver calls back with;
  \<open>sdk\<close> is the exception raised while the second step builds the SDK client, if any.
  \<open>async.series\<close> runs the steps in order and calls the final callback with the first
  error; a step that throws leaves the series without calling it.
\<close>

definition counters_open ::
  "CloudWatchCounters \<Rightarrow> string option \<Rightarrow> bool \<Rightarrow>
   error option \<times> AwsConnectionParams option \<Rightarrow> error option \<Rightarrow>
   CloudWatchCounters \<times> counters_event list" where
  "counters_open c correlationId callback resolved sdk =
    (if counters_opened c then (c, invoke_callback callback None)
     else
       let c1 = c\<lparr> counters_opened := True \<rparr>;
           c2 = c1\<lparr> counters_connection := snd resolved \<rparr>
       in case fst resolved of
            Some err \<Rightarrow> (c2, [Resolve correlationId] @ invoke_callback callback (Some err))
          | None \<Rightarrow>
              (case counters_connection c2 of
                 None \<Rightarrow>
                   (c2, [Resolve correlationId,
                         Throw TypeError_thrown])
               | Some connection \<Rightarrow>
                   (case sdk of
                      Some ex \<Rightarrow> (c2, [Resolve correlationId, Throw ex])
                    | None \<Rightarrow>
                        (c2\<lparr> counters_client := Some (CloudWatch ''2010-08-01'') \<rparr>,
                         [Resolve correlationId, NewCloudWatch]
                           @ invoke_callback callback None))))"

definition counters_close ::
  "CloudWatchCounters \<Rightarrow> string option \<Rightarrow> bool \<Rightarrow> CloudWatchCounters \<times> counters_event list" where
  "counters_close c correlationId callback =
     (c\<lparr> counters_opened := False, counters_client := None \<rparr>, invoke_callback callback None)"

subsection \<open>save\<close>

text \<open>
  How the client answers a \<open>putMetricData\<close> call issued inside the \<open>forEach\<close> loop:
  \<open>Deferred\<close> when its callback runs after \<open>save\<close> has returned (a remote call),
  \<open>Replied err\<close> when it calls back before returning.

  Inside the loop the request object is the variable \<open>params\<close>. It is declared with
  \<open>var\<close> after the loop, so it exists in the whole function and is still \<open>undefined\<close>
  while the loop runs: every request of the loop passes \<open>undefined\<close>, here \<open>None\<close>.
  The trace of \<open>save\<close> is the list of the request objects passed to \<open>putMetricData\<close>,
  in the order of the calls.
  The second step of the inner series, \<open>data = []\<close>, runs only once the first step's
  callback has been called without an error; when that happens after the loop, it rebinds a
  variable nobody reads any more (the request built after the loop holds the array itself).
  The error branch of the SDK callback tests \<open>this._logger\<close> in a plain \<open>function\<close>,
  where \<open>this\<close> is the SDK's response object: nothing is logged.
\<close>

datatype sdk_reply = Deferred | Replied "error option"

fun save_forEach ::
  "(nat \<Rightarrow> sdk_reply) \<Rightarrow> 'n Date \<Rightarrow> Dimension list \<Rightarrow>
   ('n::times) MetricDatum list \<Rightarrow> 'n PutMetricDataInput option list \<Rightarrow> 'n Counter list \<Rightarrow>
   'n MetricDatum list \<times> 'n PutMetricDataInput option list" where
  "save_forEach reply now dimensions data_acc calls [] = (data_acc, calls)"
| "save_forEach reply now dimensions data_acc calls (counter # counters) =
     (let data1 = data_acc @ [getCounterData counter now dimensions]
      in if length data1 \<ge> 20 then
           (let calls1 = calls @ [None]
            in case reply (length calls) of
                 Replied None \<Rightarrow> save_forEach reply now dimensions [] calls1 counters
               | Replied (Some err) \<Rightarrow> save_forEach reply now dimensions data1 calls1 counters
               | Deferred \<Rightarrow> save_forEach reply now dimensions data1 calls1 counters)
         else save_forEach reply now dimensions data1 calls counters)"

definition counters_save ::
  "CloudWatchCounters \<Rightarrow> (nat \<Rightarrow> sdk_reply) \<Rightarrow> 'n Date \<Rightarrow> ('n::times) Counter list \<Rightarrow>
   'n PutMetricDataInput option list" where
  "counters_save c reply now counters =
     (case counters_client c of
        None \<Rightarrow> []
      | Some client \<Rightarrow>
          (let dimensions = [\<lparr> dim_Name = ''InstanceID'', dim_Value = counters_instance c \<rparr>];
               (data_acc, calls) = save_forEach reply now dimensions [] [] counters;
               params = \<lparr> MetricData = data_acc, Namespace = counters_source c \<rparr>
           in if length data_acc > 0 then calls @ [Some params] else calls))"

text \<open>The number of data points a request carries; \<open>None\<close> for \<open>undefined\<close>.\<close>

definition put_size :: "'n PutMetricDataInput option \<Rightarrow> nat option" where
  "put_size request = map_option (\<lambda>params. length (MetricData params)) request"

section \<open>CloudWatchLogger\<close>

subsection \<open>Log messages\<close>

record ErrorDescription =
  error_message :: "string option"
  error_stack_trace :: "string option"

record LogMessage =
  message_time :: "int Date"
  message_source :: "string option"
  message_level :: string
  message_correlation_id :: "string option"
  message_error :: "ErrorDescription option"
  message_message :: "string option"

text \<open>
  JavaScript on nullable strings: \<open>s ? s : d\<close> takes \<open>d\<close> for \<open>null\<close> and for the empty
  string; string concatenation writes \<open>null\<close> as the text \<open>null\<close>.
\<close>

definition truthy :: "string option \<Rightarrow> bool" where
  "truthy s = (case s of None \<Rightarrow> False | Some t \<Rightarrow> t \<noteq> [])"

definition to_text :: "string option \<Rightarrow> string" where
  "to_text s = (case s of None \<Rightarrow> ''null'' | Some t \<Rightarrow> t)"

definition formatMessageText :: "LogMessage \<Rightarrow> string" where
  "formatMessageText message =
    (let result = [] @ (''['' @ (if truthy (message_source message)
                                 then to_text (message_source message) else ''---'')
                    @ '':'' @ (if truthy (message_correlation_id message)
                               then to_text (message_correlation_id message) else ''---'')
                    @ '':'' @ message_level message @ ''] ''
                    @ to_text (message_message message))
     in case message_error message of
          None \<Rightarrow> result
        | Some err \<Rightarrow>
            (let result1 = (if \<not> truthy (message_message message)
                            then result @ ''Error: '' else result @ '': '');
                 result2 = result1 @ to_text (error_message err)
             in if truthy (error_stack_trace err)
                then result2 @ '' StackTrace: '' @ to_text (error_stack_trace err)
                else result2))"

subsection \<open>Requests, replies and effects\<close>

record InputLogEvent =
  timestamp :: int
  message :: string

record PutLogEventsInput =
  logEvents :: "InputLogEvent list"
  logGroupName :: "string option"
  logStreamName :: "string option"
  sequenceToken :: "string option"

record DescribeLogStreamsInput =
  describe_logGroupName :: "string option"
  logStreamNamePrefix :: "string option"

record LogStream =
  uploadSequenceToken :: "string option"

datatype CloudWatchLogs = CloudWatchLogs (logs_apiVersion: string)

datatype Timer = Timer (timer_interval: int)

text \<open>
  The effects of the logger, in the order they happen: calls of the connection resolver
  and of the remote log service, the flush timer being set and cleared, a line written to
  the auxiliary logger, an invocation of the caller's callback, an exception.
\<close>

datatype logger_event =
    ResolveConnection "string option"
  | NewCloudWatchLogs
  | CreateLogGroup "string option"
  | CreateLogStream "string option" "string option"
  | DescribeLogStreams DescribeLogStreamsInput
  | PutLogEvents PutLogEventsInput
  | SetInterval int
  | ClearInterval
  | AuxiliaryLoggerError string error string
  | Done "error option"
  | Raise error

text \<open>
  The replies of the remote service are parameters of the operations. The SDK calls back
  with \<open>(err, data)\<close> where \<open>data\<close> is \<open>null\<close> exactly when \<open>err\<close> is set:
  \<open>describeLogStreams\<close> answers \<open>Inl err\<close> or \<open>Inr data.logStreams\<close>,
  \<open>putLogEvents\<close> answers \<open>Inl err\<close> or \<open>Inr data.nextSequenceToken\<close>,
  \<open>createLogGroup\<close> and \<open>createLogStream\<close> answer with an optional error.
  Calls on one instance are serialised: each operation runs to its end, replies included,
  before the next one starts.
\<close>

subsection \<open>Component state\<close>

record CloudWatchLogger =
  logger_timer :: "Timer option"
  logger_connection :: "AwsConnectionParams option"
  logger_client :: "CloudWatchLogs option"
  logger_connectTimeout :: int
  logger_group :: "string option"
  logger_stream :: "string option"
  logger_lastToken :: "string option"
  logger_cache :: "LogMessage list"
  logger_interval :: int

definition new_CloudWatchLogger :: CloudWatchLogger where
  "new_CloudWatchLogger =
     \<lparr> logger_timer = None, logger_connection = None, logger_client = None,
       logger_connectTimeout = 30000, logger_group = Some ''undefined'',
       logger_stream = None, logger_lastToken = None, logger_cache = [],
       logger_interval = 10000 \<rparr>"

definition logger_isOpen :: "CloudWatchLogger \<Rightarrow> bool" where
  "logger_isOpen l = (logger_timer l \<noteq> None)"

text \<open>
  A callback is what it does when it is called: it receives the error (or none) and the
  component, and returns the component and the effects. \<open>report\<close> is the callback of an
  outside caller, which only shows up in the trace.
\<close>

type_synonym logger_callback =
  "error option \<Rightarrow> CloudWatchLogger \<Rightarrow> CloudWatchLogger \<times> logger_event list"

definition report :: logger_callback where
  "report err l = (l, [Done err])"

definition ResourceAlreadyExistsException :: string where
  "ResourceAlreadyExistsException = ''ResourceAlreadyExistsException''"

subsection \<open>open\<close>

text \<open>
  The third step of \<open>open\<close>: create the stream; when it exists already, describe the
  streams and take the sequence token of the first one. Returns the component, the effects
  and the error passed to the step's callback, or \<open>None\<close> as third part when the step threw
  (the \<open>describeLogStreams\<close> callback reads \<open>data.logStreams\<close>, and \<open>data\<close> is \<open>null\<close>
  on an error).
\<close>

definition open_createLogStream ::
  "CloudWatchLogger \<Rightarrow> error option \<Rightarrow> error + LogStream list \<Rightarrow>
   CloudWatchLogger \<times> logger_event list \<times> error option option" where
  "open_createLogStream l created described =
    (let create = CreateLogStream (logger_group l) (logger_stream l)
     in case created of
          None \<Rightarrow> (l\<lparr> logger_lastToken := None \<rparr>, [create], Some None)
        | Some err \<Rightarrow>
            if err_code err = ResourceAlreadyExistsException then
              (let describe = DescribeLogStreams
                     \<lparr> describe_logGroupName = logger_group l,
                       logStreamNamePrefix = logger_stream l \<rparr>
               in case described of
                    Inl err2 \<Rightarrow> (l, [create, describe, Raise TypeError_thrown], None)
                  | Inr logStreams \<Rightarrow>
                      ((if length logStreams > 0
                        then l\<lparr> logger_lastToken := uploadSequenceToken (hd logStreams) \<rparr>
                        else l),
                       [create, describe], Some None))
            else (l, [create], Some (Some err)))"

definition logger_open ::
  "CloudWatchLogger \<Rightarrow> string option \<Rightarrow> bool \<Rightarrow>
   error option \<times> AwsConnectionParams option \<Rightarrow> error option \<Rightarrow> error option \<Rightarrow>
   error + LogStream list \<Rightarrow> CloudWatchLogger \<times> logger_event list" where
  "logger_open l correlationId callback resolved group_created stream_created described =
    (let final = (\<lambda>err. if callback then [Done err] else [])
     in if logger_isOpen l then
          (l, if callback then [Done None] else [Raise TypeError_thrown])
        else
          let l1 = l\<lparr> logger_connection := snd resolved \<rparr>
          in case fst resolved of
               Some err \<Rightarrow> (l1, [ResolveConnection correlationId] @ final (Some err))
             | None \<Rightarrow>
                 (case logger_connection l1 of
                    None \<Rightarrow> (l1, [ResolveConnection correlationId, Raise TypeError_thrown])
                  | Some connection \<Rightarrow>
                      (let l2 = l1\<lparr> logger_client := Some (CloudWatchLogs ''2014-03-28'') \<rparr>;
                           step2 = [ResolveConnection correlationId, NewCloudWatchLogs,
                                    CreateLogGroup (logger_group l2)]
                       in if (case group_created of
                                None \<Rightarrow> False
                              | Some err \<Rightarrow> err_code err \<noteq> ResourceAlreadyExistsException)
                          then (l2, step2 @ final group_created)
                          else
                            (case open_createLogStream l2 stream_created described of
                               (l3, step3, None) \<Rightarrow> (l3, step2 @ step3)
                             | (l3, step3, Some (Some err)) \<Rightarrow>
                                 (l3, step2 @ step3 @ final (Some err))
                             | (l3, step3, Some None) \<Rightarrow>
                                 (if logger_timer l3 = None
                                  then (l3\<lparr> logger_timer := Some (Timer (logger_interval l3)) \<rparr>,
                                        step2 @ step3 @ [SetInterval (logger_interval l3)]
                                          @ final None)
                                  else (l3, step2 @ step3 @ final None))))))"

subsection \<open>save and close\<close>

definition NOT_OPENED :: error where
  "NOT_OPENED =
     Error ConfigException (Some ''cloudwatch_logger'') ''NOT_OPENED''
       ''CloudWatchLogger is not opened'' [] None"

text \<open>
  \<open>save(messages, callback)\<close>. The request \<open>params\<close> of \<open>putLogEvents\<close> is built
  before the series starts, from the token the component holds at that moment; the first
  step of the series then describes the streams and stores the token of the first one in
  the component; the second step sends \<open>params\<close>. The series is started without a final
  callback.
\<close>

definition logger_save ::
  "CloudWatchLogger \<Rightarrow> LogMessage list option \<Rightarrow> logger_callback option \<Rightarrow>
   error + LogStream list \<Rightarrow> error + string option \<Rightarrow>
   CloudWatchLogger \<times> logger_event list" where
  "logger_save l messages callback described put =
    (if \<not> logger_isOpen l \<or> messages = None \<or> messages = Some [] then
       (case callback of Some k \<Rightarrow> k None l | None \<Rightarrow> (l, []))
     else if logger_client l = None then
       (case callback of
          Some k \<Rightarrow> k (Some NOT_OPENED) l
        | None \<Rightarrow> (l, [Raise TypeError_thrown]))
     else
       let events = map (\<lambda>message. \<lparr> timestamp = getTime (message_time message),
                                      message = formatMessageText message \<rparr>)
                        (case messages of Some ms \<Rightarrow> ms | None \<Rightarrow> []);
           params = \<lparr> logEvents = events, logGroupName = logger_group l,
                      logStreamName = logger_stream l, sequenceToken = logger_lastToken l \<rparr>;
           describeParams = \<lparr> describe_logGroupName = logger_group l,
                              logStreamNamePrefix = logger_stream l \<rparr>
       in case described of
            Inl err \<Rightarrow> (l, [DescribeLogStreams describeParams, Raise TypeError_thrown])
          | Inr logStreams \<Rightarrow>
              (let l1 = (if length logStreams > 0
                         then l\<lparr> logger_lastToken := uploadSequenceToken (hd logStreams) \<rparr>
                         else l)
               in case put of
                    Inl err \<Rightarrow>
                      (l1, [DescribeLogStreams describeParams, PutLogEvents params,
                            AuxiliaryLoggerError ''cloudwatch_logger'' err ''putLogEvents error''])
                  | Inr nextSequenceToken \<Rightarrow>
                      (l1\<lparr> logger_lastToken := nextSequenceToken \<rparr>,
                       [DescribeLogStreams describeParams, PutLogEvents params])))"

text \<open>
  \<open>close(correlationId, callback)\<close> saves the cache and does everything else, the call
  of its own callback included, in the callback it hands to \<open>save\<close>.
\<close>

definition close_continuation :: "bool \<Rightarrow> logger_callback" where
  "close_continuation callback err l =
     (l\<lparr> logger_cache := [], logger_timer := None, logger_client := None \<rparr>,
      (if logger_timer l \<noteq> None then [ClearInterval] else [])
        @ (if callback then [Done None] else []))"

definition logger_close ::
  "CloudWatchLogger \<Rightarrow> string option \<Rightarrow> bool \<Rightarrow>
   error + LogStream list \<Rightarrow> error + string option \<Rightarrow>
   CloudWatchLogger \<times> logger_event list" where
  "logger_close l correlationId callback described put =
     logger_save l (Some (logger_cache l)) (Some (close_continuation callback)) described put"

text \<open>
  The states a logger can be in: fresh, then changed by \<open>configure\<close> (group, stream and
  timeout), by the base class (which owns the cache and the flush interval and touches
  nothing else), and by \<open>open\<close>, \<open>save\<close> and \<open>close\<close> under any replies of the
  resolver and of the remote service.
\<close>

inductive reachable :: "CloudWatchLogger \<Rightarrow> bool" where
  fresh: "reachable new_CloudWatchLogger"
| configure: "reachable l \<Longrightarrow>
    reachable (l\<lparr> logger_group := g, logger_stream := s, logger_connectTimeout := t \<rparr>)"
| base: "reachable l \<Longrightarrow> reachable (l\<lparr> logger_cache := c, logger_interval := i \<rparr>)"
| opened: "reachable l \<Longrightarrow>
    reachable (fst (logger_open l correlationId callback resolved group_created
                      stream_created described))"
| saved: "reachable l \<Longrightarrow>
    reachable (fst (logger_save l messages (if callback then Some report else None)
                      described put))"
| closed: "reachable l \<Longrightarrow>
    reachable (fst (logger_close l correlationId callback described put))"

section \<open>LambdaClient\<close>

subsection \<open>JavaScript values and objects\<close>

text \<open>
  \<open>invoke\<close> clones its argument and then assigns to the clone, and what matters is which
  object the assignments reach. Objects therefore live in a store, a list of property
  lists where the address of an object is its index; a value is a primitive or the address
  of an object. Allocation appends to the store. Properties keep their insertion order:
  assigning to an existing property replaces its value in place, assigning to a new one
  appends it.
\<close>

datatype jsval =
    JUndefined
  | JNull
  | JBool bool
  | JNum int
  | JStr string
  | JRef nat

type_synonym obj = "(string \<times> jsval) list"

type_synonym heap = "obj list"

fun set_prop :: "obj \<Rightarrow> string \<Rightarrow> jsval \<Rightarrow> obj" where
  "set_prop [] key v = [(key, v)]"
| "set_prop ((key', v') # props) key v =
     (if key' = key then (key, v) # props else (key', v') # set_prop props key v)"

text \<open>
  \<open>_.clone\<close>, a shallow copy: a new object with the same properties for an object,
  the value itself for a primitive. An address outside the store does not denote an
  object; it is handed back, and the assignment that follows fails on it.
\<close>

definition clone :: "heap \<Rightarrow> jsval \<Rightarrow> heap \<times> jsval" where
  "clone h v =
     (case v of
        JRef a \<Rightarrow> (if a < length h then (h @ [h ! a], JRef (length h)) else (h, JUndefined))
      | _ \<Rightarrow> (h, v))"

text \<open>
  \<open>target.key = v\<close> in strict mode: it updates the object when \<open>target\<close> is one, and
  throws a \<open>TypeError\<close> when \<open>target\<close> is \<open>null\<close>, \<open>undefined\<close> or a primitive.
\<close>

definition assign_prop :: "heap \<Rightarrow> jsval \<Rightarrow> string \<Rightarrow> jsval \<Rightarrow> error + heap" where
  "assign_prop h target key v =
     (case target of
        JRef a \<Rightarrow> (if a < length h then Inr (h[a := set_prop (h ! a) key v])
                   else Inl TypeError_thrown)
      | _ \<Rightarrow> Inl TypeError_thrown)"

subsection \<open>Requests, replies and effects\<close>

record InvocationRequest =
  FunctionName :: "string option"
  InvocationType :: string
  LogType :: string
  Payload :: string

text \<open>\<open>data.Payload\<close> of a reply: a string, or something else (a buffer).\<close>

datatype payload = StringPayload string | BinaryPayload "nat list"

text \<open>
  The result handed to the caller's callback: the decoded payload, or the payload as it
  came. \<open>'j\<close> is the type of decoded values; the decoder (\<open>JSON.parse\<close>) and the
  encoder (\<open>JSON.stringify\<close>) are parameters of \<open>invoke\<close>.
\<close>

datatype 'j invocation_result = Decoded 'j | Raw payload

datatype 'j client_event =
    LambdaInvoke InvocationRequest
  | ClientCallback "error option" "'j invocation_result option"
  | ClientLoggerError "string option" error string
  | ClientThrow error

datatype Lambda = Lambda

record LambdaClient =
  client_lambda :: "Lambda option"
  client_opened :: bool
  client_connection :: "AwsConnectionParams option"
  client_connectTimeout :: int

definition NO_COMMAND :: error where
  "NO_COMMAND = Error UnknownException None ''NO_COMMAND'' ''Missing Seneca pattern cmd'' [] None"

definition CALL_FAILED :: "string option \<Rightarrow> error \<Rightarrow> error" where
  "CALL_FAILED correlationId cause =
     withCause cause
       (Error InvocationException correlationId ''CALL_FAILED''
          ''Failed to invoke lambda function'' [] None)"

definition DESERIALIZATION_FAILED :: "string option \<Rightarrow> error \<Rightarrow> error" where
  "DESERIALIZATION_FAILED correlationId cause =
     withCause cause
       (Error InvocationException correlationId ''DESERIALIZATION_FAILED''
          ''Failed to deserialize result'' [] None)"

subsection \<open>invoke\<close>

text \<open>
  The callback \<open>invoke\<close> hands to the SDK, run on the reply \<open>(err, data)\<close>:
  \<open>Inl err\<close>, or \<open>Inr data.Payload\<close>. In the \<open>catch\<close> branch the caller's callback is
  called with the error and control then leaves the \<open>if\<close>, with \<open>result\<close> still the
  string, and reaches the call after it.
\<close>

definition invoke_reply ::
  "(string \<Rightarrow> error + 'j) \<Rightarrow> string option \<Rightarrow> bool \<Rightarrow> error + payload option \<Rightarrow>
   'j client_event list" where
  "invoke_reply parse correlationId callback reply =
    (if \<not> callback then
       (case reply of
          Inl err \<Rightarrow> [ClientLoggerError correlationId err ''Failed to invoke lambda function'']
        | Inr data_Payload \<Rightarrow> [])
     else
       case reply of
         Inl err \<Rightarrow> [ClientCallback (Some (CALL_FAILED correlationId err)) None]
       | Inr data_Payload \<Rightarrow>
           (case data_Payload of
              Some (StringPayload s) \<Rightarrow>
                (case parse s of
                   Inr v \<Rightarrow> [ClientCallback None (Some (Decoded v))]
                 | Inl ex \<Rightarrow>
                     [ClientCallback (Some (DESERIALIZATION_FAILED correlationId ex)) None,
                      ClientCallback None (Some (Raw (StringPayload s)))])
            | Some other \<Rightarrow> [ClientCallback None (Some (Raw other))]
            | None \<Rightarrow> [ClientCallback None None]))"

text \<open>
  \<open>invoke(invocationType, cmd, correlationId, args, callback)\<close>. \<open>cmd\<close> and
  \<open>correlationId\<close> are \<open>None\<close> for \<open>null\<close>; \<open>nextShort\<close> is the identifier
  \<open>IdGenerator.nextShort()\<close> returns when it is called; \<open>h\<close> is the store before the
  call and the first component of the result the store after it.
\<close>

definition LambdaClient_invoke ::
  "LambdaClient \<Rightarrow> (heap \<Rightarrow> jsval \<Rightarrow> string) \<Rightarrow> (string \<Rightarrow> error + 'j) \<Rightarrow> string \<Rightarrow>
   heap \<Rightarrow> string \<Rightarrow> string option \<Rightarrow> string option \<Rightarrow> jsval \<Rightarrow> bool \<Rightarrow>
   error + payload option \<Rightarrow> heap \<times> 'j client_event list" where
  "LambdaClient_invoke client stringify parse nextShort h invocationType cmd correlationId
     args callback reply =
    (case cmd of
       None \<Rightarrow>
         (h, if callback then [ClientCallback (Some NO_COMMAND) None]
             else [ClientLoggerError correlationId NO_COMMAND ''Failed to call %s''])
     | Some command \<Rightarrow>
         (let (h1, args1) = clone h args
          in case assign_prop h1 args1 ''cmd'' (JStr command) of
               Inl ex \<Rightarrow> (h1, [ClientThrow ex])
             | Inr h2 \<Rightarrow>
                 (case assign_prop h2 args1 ''correlation_id''
                         (JStr (if truthy correlationId then to_text correlationId
                                else nextShort)) of
                    Inl ex \<Rightarrow> (h2, [ClientThrow ex])
                  | Inr h3 \<Rightarrow>
                      (case client_connection client of
                         None \<Rightarrow> (h3, [ClientThrow TypeError_thrown])
                       | Some connection \<Rightarrow>
                           (let params = \<lparr> FunctionName = getArn connection,
                                            InvocationType = invocationType,
                                            LogType = ''None'',
                                            Payload = stringify h3 args1 \<rparr>
                            in case client_lambda client of
                                 None \<Rightarrow> (h3, [ClientThrow TypeError_thrown])
                               | Some lambda \<Rightarrow>
                                   (h3, LambdaInvoke params
                                          # invoke_reply parse correlationId callback reply))))))"

section \<open>LambdaFunction\<close>

record LambdaEvent =
  event_cmd :: "string option"
  event_correlation_id :: "string option"
  event_params :: obj

text \<open>
  What reaches the hosting runtime: a call of \<open>context.done(err, result)\<close>, or an
  exception leaving the entry point. \<open>'r\<close> is the type of results. An action receives the
  event and a callback; it is modelled by what it does with that callback on an event.
  \<open>execute\<close> hands \<open>context.done\<close> itself to the action, so the action's calls of its
  callback are calls of \<open>context.done\<close>.
\<close>

datatype 'r function_event =
    ContextDone "error option" "'r option"
  | FunctionThrow error

type_synonym 'r action = "LambdaEvent \<Rightarrow> 'r function_event list"

text \<open>
  \<open>_actions\<close> is a plain object created as \<open>{}\<close>, and \<open>this._actions[cmd]\<close> is a
  property read on it: it finds the action \<open>registerAction\<close> stored under \<open>cmd\<close> (the
  action wrapped with its validation), and otherwise what the object inherits from
  \<open>Object.prototype\<close> under that name, and \<open>undefined\<close> only when there is neither.
  The inherited members are functions, except \<open>__proto__\<close>, which reads as the prototype
  object. Called as \<open>action(event, context.done)\<close>, that is without a receiver,
  \<open>toString\<close> and \<open>constructor\<close> return a value and the others throw a \<open>TypeError\<close>;
  calling the prototype object throws one too. None of them calls its second argument.
  The record holds the own properties of \<open>_actions\<close>.
\<close>

record 'r LambdaFunction =
  function_actions :: "string \<rightharpoonup> 'r action"

datatype 'r property = Own "'r action" | InheritedReturns | InheritedThrows | Undefined

definition Object_prototype_returning :: "string list" where
  "Object_prototype_returning = [''constructor'', ''toString'']"

definition Object_prototype_throwing :: "string list" where
  "Object_prototype_throwing =
     [''hasOwnProperty'', ''isPrototypeOf'', ''propertyIsEnumerable'', ''toLocaleString'',
      ''valueOf'', ''__defineGetter__'', ''__defineSetter__'', ''__lookupGetter__'',
      ''__lookupSetter__'', ''__proto__'']"

definition read_action :: "(string \<rightharpoonup> 'r action) \<Rightarrow> string \<Rightarrow> 'r property" where
  "read_action actions cmd =
     (case actions cmd of
        Some action \<Rightarrow> Own action
      | None \<Rightarrow>
          if cmd \<in> set Object_prototype_returning then InheritedReturns
          else if cmd \<in> set Object_prototype_throwing then InheritedThrows
          else Undefined)"

definition NO_ACTION :: "string option \<Rightarrow> string \<Rightarrow> error" where
  "NO_ACTION correlationId cmd =
     withDetails ''command'' cmd
       (Error BadRequestException correlationId ''NO_ACTION''
          (''Action '' @ cmd @ '' was not found'') [] None)"

definition LambdaFunction_execute :: "'r LambdaFunction \<Rightarrow> LambdaEvent \<Rightarrow> 'r function_event list" where
  "LambdaFunction_execute f event =
    (let cmd = event_cmd event;
         correlationId = event_correlation_id event
     in case cmd of
          None \<Rightarrow>
            [ContextDone
               (Some (Error BadRequestException correlationId ''NO_COMMAND''
                        ''Cmd parameter is missing'' [] None))
               None]
        | Some command \<Rightarrow>
            (case read_action (function_actions f) command of
               Undefined \<Rightarrow> [ContextDone (Some (NO_ACTION correlationId command)) None]
             | Own action \<Rightarrow> action event
             | InheritedReturns \<Rightarrow> []
             | InheritedThrows \<Rightarrow> [FunctionThrow TypeError_thrown]))"

section \<open>Arn\<close>

text \<open>
  Modelled from the spec: the Arn value, its parser and its composer belong to the
  connection module of the repository, which is not among the source files verified here.
  The spec describes an Arn as the decomposed view of a resource name with the fields
  partition, service, region, account, resourceType and resource, of the string shape
  \<open>arn:partition:service:region:account:resourceType/resource\<close>, and its parsing as
  purely lexical: colon-delimited, with a slash-delimited resource suffix.
\<close>

record Arn =
  arn_partition :: string
  arn_service :: string
  arn_region :: string
  arn_account :: string
  arn_resourceType :: string
  arn_resource :: string

text \<open>Modelled from the spec: the composer writes the fields in the string shape above.\<close>

definition Arn_toString :: "Arn \<Rightarrow> string" where
  "Arn_toString a =
     ''arn:'' @ arn_partition a @ '':'' @ arn_service a @ '':'' @ arn_region a @ '':'' @ arn_account a
       @ '':'' @ arn_resourceType a @ ''/'' @ arn_resource a"

text \<open>
  Modelled from the spec: the lexical step, cutting a string at the first occurrence of a
  delimiter; there is no cut when the delimiter does not occur.
\<close>

definition split_first :: "char \<Rightarrow> string \<Rightarrow> (string \<times> string) option" where
  "split_first c s =
     (if c \<in> set s
      then Some (takeWhile (\<lambda>x. x \<noteq> c) s, tl (dropWhile (\<lambda>x. x \<noteq> c) s))
      else None)"

text \<open>
  Modelled from the spec: the parser cuts at the first five colons, requires the first
  token to be \<open>arn\<close>, and cuts what follows the fifth colon at its first slash into
  resource type and resource. A string without five colons, without the \<open>arn\<close> prefix or
  without a slash in its last part is not an Arn.
\<close>

definition Arn_parse :: "string \<Rightarrow> Arn option" where
  "Arn_parse s =
     (case split_first CHR '':'' s of
        None \<Rightarrow> None
      | Some (prefix, s1) \<Rightarrow>
          if prefix \<noteq> ''arn'' then None
          else
            (case split_first CHR '':'' s1 of
               None \<Rightarrow> None
             | Some (p, s2) \<Rightarrow>
                 (case split_first CHR '':'' s2 of
                    None \<Rightarrow> None
                  | Some (sv, s3) \<Rightarrow>
                      (case split_first CHR '':'' s3 of
                         None \<Rightarrow> None
                       | Some (rg, s4) \<Rightarrow>
                           (case split_first CHR '':'' s4 of
                              None \<Rightarrow> None
                            | Some (ac, s5) \<Rightarrow>
                                (case split_first CHR ''/'' s5 of
                                   None \<Rightarrow> None
                                 | Some (rt, rs) \<Rightarrow>
                                     Some \<lparr> arn_partition = p, arn_service = sv, arn_region = rg,
                                            arn_account = ac, arn_resourceType = rt,
                                            arn_resource = rs \<rparr>))))))"

text \<open>
  Modelled from the spec: the parts of a well-formed Arn do not contain the delimiter that
  ends them: no colon in partition, service, region and account, no slash in the resource
  type.
\<close>

definition Arn_well_formed :: "Arn \<Rightarrow> bool" where
  "Arn_well_formed a =
     (CHR '':'' \<notin> set (arn_partition a) \<and> CHR '':'' \<notin> set (arn_service a) \<and>
      CHR '':'' \<notin> set (arn_region a) \<and> CHR '':'' \<notin> set (arn_account a) \<and>
      CHR ''/'' \<notin> set (arn_resourceType a))"

section \<open>Concrete inputs\<close>

subsection \<open>Counters\<close>

definition increment_counter :: "int Counter" where
  "increment_counter =
     \<lparr> counter_name = ''calls'', counter_type = CounterType_Increment, counter_last = 0,
       counter_count = 1, counter_min = 0, counter_max = 0, counter_average = 0,
       counter_time = Date 1000 \<rparr>"

definition interval_counter :: "int Counter" where
  "interval_counter =
     \<lparr> counter_name = ''exec_time'', counter_type = CounterType_Interval, counter_last = 7,
       counter_count = 4, counter_min = 2, counter_max = 9, counter_average = 5,
       counter_time = Date 1000 \<rparr>"

definition opened_counters :: CloudWatchCounters where
  "opened_counters =
     new_CloudWatchCounters\<lparr> counters_client := Some (CloudWatch ''2010-08-01''),
                             counters_opened := True \<rparr>"

subsection \<open>Logger\<close>

definition connection_params :: AwsConnectionParams where
  "connection_params =
     \<lparr> getArn = Some ''arn:aws:lambda:us-east-1:123456789012:function:myFunc'',
       getRegion = Some ''us-east-1'', getAccessId = Some ''A'', getAccessKey = Some ''B'' \<rparr>"

definition log_message :: LogMessage where
  "log_message =
     \<lparr> message_time = Date 1000, message_source = Some ''svc'', message_level = ''INFO'',
       message_correlation_id = Some ''123'', message_error = None,
       message_message = Some ''started'' \<rparr>"

text \<open>
  A logger opened on a stream that exists already, whose token at that time was \<open>A\<close>,
  with one message in its cache.
\<close>

definition open_logger :: CloudWatchLogger where
  "open_logger =
     \<lparr> logger_timer = Some (Timer 10000), logger_connection = Some connection_params,
       logger_client = Some (CloudWatchLogs ''2014-03-28''), logger_connectTimeout = 30000,
       logger_group = Some ''undefined'', logger_stream = None, logger_lastToken = Some ''A'',
       logger_cache = [log_message], logger_interval = 10000 \<rparr>"

subsection \<open>Lambda client and function\<close>

definition opened_client :: LambdaClient where
  "opened_client =
     \<lparr> client_lambda = Some Lambda, client_opened = True,
       client_connection = Some connection_params, client_connectTimeout = 10000 \<rparr>"

text \<open>
  An encoder and a decoder to run \<open>invoke\<close> with: the encoder writes an object whose
  properties are strings, booleans or \<open>null\<close> as JSON text, the decoder reads the three
  JSON literals and rejects every other text with a \<open>SyntaxError\<close>.
\<close>

definition quoted :: "string \<Rightarrow> string" where
  "quoted s = CHR 0x22 # s @ [CHR 0x22]"

fun encode_value :: "jsval \<Rightarrow> string" where
  "encode_value (JStr s) = quoted s"
| "encode_value (JBool b) = (if b then ''true'' else ''false'')"
| "encode_value _ = ''null''"

fun encode_members :: "obj \<Rightarrow> string" where
  "encode_members [] = []"
| "encode_members [(key, v)] = quoted key @ '':'' @ encode_value v"
| "encode_members ((key, v) # props) =
     quoted key @ '':'' @ encode_value v @ '','' @ encode_members props"

definition encode_flat :: "heap \<Rightarrow> jsval \<Rightarrow> string" where
  "encode_flat h v =
     (case v of
        JRef a \<Rightarrow> (if a < length h then ''{'' @ encode_members (h ! a) @ ''}'' else ''null'')
      | _ \<Rightarrow> encode_value v)"

definition unexpected_token :: error where
  "unexpected_token = Error SyntaxError None [] ''Unexpected token'' [] None"

definition decode_literal :: "string \<Rightarrow> error + jsval" where
  "decode_literal s =
     (if s = ''null'' then Inr JNull
      else if s = ''true'' then Inr (JBool True)
      else if s = ''false'' then Inr (JBool False)
      else Inl unexpected_token)"

definition empty_function :: "jsval LambdaFunction" where
  "empty_function = \<lparr> function_actions = Map.empty \<rparr>"

subsection \<open>Arn\<close>

definition function_arn :: Arn where
  "function_arn =
     \<lparr> arn_partition = ''aws'', arn_service = ''lambda'', arn_region = ''us-east-1'',
       arn_account = ''123456789012'', arn_resourceType = ''function'', arn_resource = ''myFunc'' \<rparr>"

section \<open>Properties of CloudWatchCounters\<close>

subsection \<open>The requests of save\<close>

lemma save_forEach_undefined:
  "set calls \<subseteq> {None} \<Longrightarrow>
   set (snd (save_forEach reply now dims data_acc calls cs)) \<subseteq> {None}"
proof (induction cs arbitrary: data_acc calls)
  case Nil
  then show ?case by simp
next
  case (Cons c cs)
  have step: "set (calls @ [None]) \<subseteq> {None}"
    using Cons.prems by simp
  show ?case
    using Cons.IH [OF step] Cons.IH [OF Cons.prems]
    by (simp add: Let_def split: sdk_reply.splits option.splits)
qed

text \<open>
  Whatever the client answers and however long the batch is, at most one request of a
  \<open>save\<close> carries a request object, hence data points: the one issued after the loop.
\<close>

lemma counters_save_one_request_object:
  "length (filter (\<lambda>r. r \<noteq> None) (counters_save c reply now cs)) \<le> 1"
proof (cases "counters_client c")
  case None
  then show ?thesis by (simp add: counters_save_def)
next
  case (Some client)
  let ?dims = "[\<lparr> dim_Name = ''InstanceID'', dim_Value = counters_instance c \<rparr>]"
  obtain d calls where sf: "save_forEach reply now ?dims [] [] cs = (d, calls)"
    by (cases "save_forEach reply now ?dims [] [] cs")
  have "set calls \<subseteq> {None}"
    using save_forEach_undefined [of "[]" reply now ?dims "[]" cs] sf by simp
  then have "filter (\<lambda>r. r \<noteq> None) calls = []"
    by (auto simp: filter_empty_conv)
  then show ?thesis
    using Some sf by (simp add: counters_save_def Let_def)
qed

text \<open>
  C1. A batch of 45 counters saved on an open component, against a remote service (its
  replies arrive after \<open>save\<close> has returned): \<open>putMetricData\<close> is called 27 times, 26
  times inside the loop (once for each of the counters 20 to 45) with \<open>undefined\<close> as
  request, and once after the loop with all 45 data points in one request. The claim asks
  for 3 requests of 20, 20 and 5 data points.
\<close>

theorem counters_save_45_data_points:
  "map put_size
     (counters_save opened_counters (\<lambda>_. Deferred) (Date 0) (replicate 45 increment_counter))
   = replicate 26 None @ [Some 45]"
  by code_simp

subsection \<open>The shape of a data point\<close>

text \<open>
  C7 as stated fails for interval counters: their data point has the explicit unit
  \<open>Milliseconds\<close>.
\<close>

theorem getCounterData_interval_unit:
  "Unit (getCounterData interval_counter (Date 0) []) = ''Milliseconds'' \<and>
   Unit (getCounterData interval_counter (Date 0) []) \<noteq> CloudWatchUnit_None"
  by (simp add: getCounterData_def interval_counter_def CloudWatchUnit_Milliseconds_def
      CloudWatchUnit_None_def)

text \<open>
  C7, amended. The shape of a data point follows the counter's kind: an increment counter
  carries its count as \<open>Value\<close> with unit \<open>Count\<close>; an interval counter carries the
  statistic values SampleCount = count, Minimum = min, Maximum = max, Sum = count * average
  with unit \<open>Milliseconds\<close>; a statistics counter carries the same statistic values with
  the unit \<open>None\<close>; a last-value counter carries its last value and a timestamp counter the
  epoch milliseconds of its time, both with the unit \<open>None\<close>. A data point has either a
  \<open>Value\<close> or \<open>StatisticValues\<close>, never both.
\<close>

theorem getCounterData_shape:
  "(let d = getCounterData counter now dimensions;
        stats = \<lparr> SampleCount = counter_count counter, Maximum = counter_max counter,
                  Minimum = counter_min counter,
                  Sum = counter_count counter * counter_average counter \<rparr>
    in (counter_type counter = CounterType_Increment \<longrightarrow>
          Value d = Some (counter_count counter) \<and> Unit d = ''Count'' \<and>
          StatisticValues d = None) \<and>
       (counter_type counter = CounterType_Interval \<longrightarrow>
          StatisticValues d = Some stats \<and> Unit d = ''Milliseconds'' \<and> Value d = None) \<and>
       (counter_type counter = CounterType_Statistics \<longrightarrow>
          StatisticValues d = Some stats \<and> Unit d = ''None'' \<and> Value d = None) \<and>
       (counter_type counter = CounterType_LastValue \<longrightarrow>
          Value d = Some (counter_last counter) \<and> Unit d = ''None'' \<and>
          StatisticValues d = None) \<and>
       (counter_type counter = CounterType_Timestamp \<longrightarrow>
          Value d = Some (getTime (counter_time counter)) \<and> Unit d = ''None'' \<and>
          StatisticValues d = None))"
  by (simp add: Let_def getCounterData_def CloudWatchUnit_Milliseconds_def
      CloudWatchUnit_None_def CloudWatchUnit_Count_def)

text \<open>One counter of each kind.\<close>

theorem getCounterData_shape_witness:
  "(counter_type increment_counter = CounterType_Increment \<and>
      Value (getCounterData increment_counter (Date 0) []) = Some 1 \<and>
      Unit (getCounterData increment_counter (Date 0) []) = ''Count'') \<and>
   (counter_type interval_counter = CounterType_Interval \<and>
      StatisticValues (getCounterData interval_counter (Date 0) [])
        = Some \<lparr> SampleCount = 4, Maximum = 9, Minimum = 2, Sum = 20 \<rparr> \<and>
      Unit (getCounterData interval_counter (Date 0) []) = ''Milliseconds'') \<and>
   (counter_type (interval_counter\<lparr> counter_type := CounterType_Statistics \<rparr>)
        = CounterType_Statistics \<and>
      StatisticValues
        (getCounterData (interval_counter\<lparr> counter_type := CounterType_Statistics \<rparr>) (Date 0) [])
        = Some \<lparr> SampleCount = 4, Maximum = 9, Minimum = 2, Sum = 20 \<rparr> \<and>
      Unit (getCounterData (interval_counter\<lparr> counter_type := CounterType_Statistics \<rparr>) (Date 0) [])
        = ''None'') \<and>
   (counter_type (interval_counter\<lparr> counter_type := CounterType_LastValue \<rparr>)
        = CounterType_LastValue \<and>
      Value (getCounterData (interval_counter\<lparr> counter_type := CounterType_LastValue \<rparr>) (Date 0) [])
        = Some 7) \<and>
   (counter_type (interval_counter\<lparr> counter_type := CounterType_Timestamp \<rparr>)
        = CounterType_Timestamp \<and>
      Value (getCounterData (interval_counter\<lparr> counter_type := CounterType_Timestamp \<rparr>) (Date 0) [])
        = Some 1000)"
  using getCounterData_shape [of increment_counter "Date 0" "[]"]
    getCounterData_shape [of interval_counter "Date 0" "[]"]
    getCounterData_shape [of "interval_counter\<lparr> counter_type := CounterType_Statistics \<rparr>" "Date 0" "[]"]
    getCounterData_shape [of "interval_counter\<lparr> counter_type := CounterType_LastValue \<rparr>" "Date 0" "[]"]
    getCounterData_shape [of "interval_counter\<lparr> counter_type := CounterType_Timestamp \<rparr>" "Date 0" "[]"]
  by (simp add: Let_def increment_counter_def interval_counter_def)

subsection \<open>open\<close>

text \<open>
  C9. \<open>open\<close> on a closed component leaves it open whatever the connection resolver and
  the construction of the client report, and an \<open>open\<close> after that returns at once: the
  component is unchanged, the resolver is not called again, and the only effect is the
  callback (when one is passed), called with no error.
\<close>

theorem counters_open_sets_opened_first:
  "\<not> counters_isOpen c \<Longrightarrow>
   counters_isOpen (fst (counters_open c correlationId callback resolved sdk)) \<and>
   counters_open (fst (counters_open c correlationId callback resolved sdk))
       correlationId' callback' resolved' sdk'
     = (fst (counters_open c correlationId callback resolved sdk),
        invoke_callback callback' None)"
  by (auto simp: counters_isOpen_def counters_open_def Let_def split: option.splits)

text \<open>A fresh component whose connection resolution fails, opened twice.\<close>

theorem counters_open_sets_opened_first_witness:
  "\<not> counters_isOpen new_CloudWatchCounters \<and>
   counters_isOpen
     (fst (counters_open new_CloudWatchCounters None True
             (Some (Error ConfigException None ''NO_CONNECTION'' ''not configured'' [] None), None)
             None)) \<and>
   snd (counters_open
     (fst (counters_open new_CloudWatchCounters None True
             (Some (Error ConfigException None ''NO_CONNECTION'' ''not configured'' [] None), None)
             None)) None True (None, None) None) = [Callback None]"
  using counters_open_sets_opened_first [of new_CloudWatchCounters None True
      "(Some (Error ConfigException None ''NO_CONNECTION'' ''not configured'' [] None), None)"
      None None True "(None, None)" None]
  by (simp add: counters_isOpen_def new_CloudWatchCounters_def invoke_callback_def)

section \<open>Properties of CloudWatchLogger\<close>

subsection \<open>An open logger holds a client\<close>

lemma open_createLogStream_keeps:
  "open_createLogStream l created described = (l', effects, result) \<Longrightarrow>
   logger_client l' = logger_client l \<and> logger_timer l' = logger_timer l"
  by (auto simp: open_createLogStream_def Let_def split: option.splits if_splits sum.splits)

lemma logger_open_invariant:
  assumes "logger_timer l \<noteq> None \<longrightarrow> logger_client l \<noteq> None"
  shows "logger_timer (fst (logger_open l cid cb r g s d)) \<noteq> None \<longrightarrow>
         logger_client (fst (logger_open l cid cb r g s d)) \<noteq> None"
proof (cases "logger_isOpen l")
  case True
  then show ?thesis using assms by (simp add: logger_open_def)
next
  case False
  obtain l3 effects result where step3:
    "open_createLogStream
       (l\<lparr> logger_connection := snd r, logger_client := Some (CloudWatchLogs ''2014-03-28'') \<rparr>)
       s d = (l3, effects, result)"
    by (metis prod_cases3)
  from open_createLogStream_keeps [OF step3] have "logger_client l3 \<noteq> None"
    by simp
  with False step3 show ?thesis
    by (auto simp: logger_open_def logger_isOpen_def Let_def split: option.splits if_splits)
qed

lemma logger_save_invariant:
  assumes "logger_timer l \<noteq> None \<longrightarrow> logger_client l \<noteq> None"
  shows "logger_timer (fst (logger_save l ms (if cb then Some report else None) d p)) \<noteq> None \<longrightarrow>
         logger_client (fst (logger_save l ms (if cb then Some report else None) d p)) \<noteq> None"
  using assms
  by (auto simp: logger_save_def report_def Let_def split: option.splits if_splits sum.splits)

lemma logger_close_invariant:
  assumes "logger_timer l \<noteq> None \<longrightarrow> logger_client l \<noteq> None"
  shows "logger_timer (fst (logger_close l cid cb d p)) \<noteq> None \<longrightarrow>
         logger_client (fst (logger_close l cid cb d p)) \<noteq> None"
  using assms
  by (auto simp: logger_close_def logger_save_def close_continuation_def Let_def
      split: option.splits if_splits sum.splits)

text \<open>
  \<open>open\<close> creates the client before it sets the timer, and \<open>close\<close> clears both
  together: a logger with a timer has a client.
\<close>

lemma reachable_client:
  "reachable l \<Longrightarrow> logger_timer l \<noteq> None \<longrightarrow> logger_client l \<noteq> None"
proof (induction rule: reachable.induct)
  case fresh
  then show ?case by (simp add: new_CloudWatchLogger_def)
next
  case (configure l g s t)
  then show ?case by simp
next
  case (base l c i)
  then show ?case by simp
next
  case (opened l correlationId callback resolved group_created stream_created described)
  from opened.IH show ?case by (rule logger_open_invariant)
next
  case (saved l messages callback described put)
  from saved.IH show ?case by (rule logger_save_invariant)
next
  case (closed l correlationId callback described put)
  from closed.IH show ?case by (rule logger_close_invariant)
qed

lemma open_logger_reachable: "reachable open_logger"
proof -
  let ?opened = "fst (logger_open new_CloudWatchLogger None True (None, Some connection_params)
      None (Some (Error RemoteError None ResourceAlreadyExistsException [] [] None))
      (Inr [\<lparr> uploadSequenceToken = Some ''A'' \<rparr>]))"
  have "reachable ?opened"
    by (rule reachable.opened) (rule reachable.fresh)
  then have "reachable (?opened\<lparr> logger_cache := [log_message], logger_interval := 10000 \<rparr>)"
    by (rule reachable.base)
  moreover have "?opened\<lparr> logger_cache := [log_message], logger_interval := 10000 \<rparr> = open_logger"
    by (simp add: logger_open_def open_createLogStream_def new_CloudWatchLogger_def
        logger_isOpen_def open_logger_def Let_def)
  ultimately show ?thesis by simp
qed

subsection \<open>The token sent by save\<close>

text \<open>
  C2. \<open>save\<close> on an open logger with a non-empty batch, the remote service answering the
  \<open>describeLogStreams\<close> call: the streams are described first, and the
  \<open>putLogEvents\<close> request that follows carries the token the logger held when
  \<open>save\<close> was called, whatever token the description returned. The claim asks for the
  re-fetched token. When the write succeeds, the logger holds the token of the response
  afterwards, as claimed.
\<close>

theorem logger_save_sends_held_token:
  "logger_isOpen l \<Longrightarrow> logger_client l \<noteq> None \<Longrightarrow> messages \<noteq> [] \<Longrightarrow>
   take 2 (snd (logger_save l (Some messages) callback (Inr logStreams) put))
     = [DescribeLogStreams \<lparr> describe_logGroupName = logger_group l,
                             logStreamNamePrefix = logger_stream l \<rparr>,
        PutLogEvents
          \<lparr> logEvents = map (\<lambda>m. \<lparr> timestamp = getTime (message_time m),
                                     message = formatMessageText m \<rparr>) messages,
            logGroupName = logger_group l, logStreamName = logger_stream l,
            sequenceToken = logger_lastToken l \<rparr>] \<and>
   logger_lastToken
     (fst (logger_save l (Some messages) callback (Inr logStreams) (Inr nextSequenceToken)))
     = nextSequenceToken"
  by (auto simp: logger_save_def Let_def split: sum.splits)

text \<open>
  An open logger holding the token \<open>A\<close> saves one message while the stream's token at
  the remote service is \<open>B\<close>: the request carries \<open>A\<close>. The write succeeds here and
  the logger then holds the token \<open>C\<close> of the response.
\<close>

theorem logger_save_sends_held_token_witness:
  "logger_isOpen open_logger \<and> logger_client open_logger \<noteq> None \<and> [log_message] \<noteq> [] \<and>
   take 2 (snd (logger_save open_logger (Some [log_message]) (Some report)
                  (Inr [\<lparr> uploadSequenceToken = Some ''B'' \<rparr>]) (Inr (Some ''C''))))
     = [DescribeLogStreams \<lparr> describe_logGroupName = Some ''undefined'',
                             logStreamNamePrefix = None \<rparr>,
        PutLogEvents \<lparr> logEvents = [\<lparr> timestamp = 1000, message = ''[svc:123:INFO] started'' \<rparr>],
                       logGroupName = Some ''undefined'', logStreamName = None,
                       sequenceToken = Some ''A'' \<rparr>] \<and>
   logger_lastToken
     (fst (logger_save open_logger (Some [log_message]) (Some report)
             (Inr [\<lparr> uploadSequenceToken = Some ''B'' \<rparr>]) (Inr (Some ''C''))))
     = Some ''C''"
proof -
  have o: "logger_isOpen open_logger"
    by (simp add: logger_isOpen_def open_logger_def)
  have c: "logger_client open_logger \<noteq> None"
    by (simp add: open_logger_def)
  have m: "[log_message] \<noteq> []"
    by simp
  have line: "formatMessageText log_message = ''[svc:123:INFO] started''"
    by (simp add: formatMessageText_def log_message_def truthy_def to_text_def)
  have fields: "logger_group open_logger = Some ''undefined''" "logger_stream open_logger = None"
    "logger_lastToken open_logger = Some ''A''" "getTime (message_time log_message) = 1000"
    by (simp_all add: open_logger_def log_message_def)
  show ?thesis
    using logger_save_sends_held_token [OF o c m, of "Some report"
        "[\<lparr> uploadSequenceToken = Some ''B'' \<rparr>]" "Inr (Some ''C'')" "Some ''C''"] o c line fields
    by simp
qed

subsection \<open>The callback of save\<close>

text \<open>
  C10. On an open logger, \<open>save\<close> with a non-empty batch never calls its callback,
  whatever the remote service answers: no \<open>Done\<close> appears among its effects. \<open>close\<close>
  on an open logger with a non-empty cache saves the cache first and calls back from the
  callback of that \<open>save\<close>, so it never signals completion either.
\<close>

theorem logger_save_never_calls_back:
  "reachable l \<Longrightarrow> logger_isOpen l \<Longrightarrow>
   (messages \<noteq> [] \<longrightarrow>
      (\<forall>err. Done err \<notin> set (snd (logger_save l (Some messages) (Some report) described put)))) \<and>
   (logger_cache l \<noteq> [] \<longrightarrow>
      (\<forall>err. Done err \<notin> set (snd (logger_close l correlationId True described put))))"
proof -
  assume r: "reachable l" and o: "logger_isOpen l"
  from reachable_client [OF r] o have c: "logger_client l \<noteq> None"
    by (simp add: logger_isOpen_def)
  show ?thesis
    using o c by (auto simp: logger_save_def logger_close_def Let_def split: sum.splits)
qed

text \<open>The open logger with one cached message, flushed and closed.\<close>

theorem logger_save_never_calls_back_witness:
  "reachable open_logger \<and> logger_isOpen open_logger \<and> [log_message] \<noteq> [] \<and>
   logger_cache open_logger \<noteq> [] \<and>
   (\<forall>err. Done err \<notin> set (snd (logger_save open_logger (Some [log_message]) (Some report)
                                  (Inr [\<lparr> uploadSequenceToken = Some ''B'' \<rparr>])
                                  (Inr (Some ''C''))))) \<and>
   (\<forall>err. Done err \<notin> set (snd (logger_close open_logger None True
                                  (Inr [\<lparr> uploadSequenceToken = Some ''B'' \<rparr>])
                                  (Inr (Some ''C'')))))"
proof -
  have o: "logger_isOpen open_logger"
    by (simp add: logger_isOpen_def open_logger_def)
  have c: "logger_cache open_logger \<noteq> []"
    by (simp add: open_logger_def)
  show ?thesis
    using logger_save_never_calls_back [OF open_logger_reachable o, of "[log_message]"
        "Inr [\<lparr> uploadSequenceToken = Some ''B'' \<rparr>]" "Inr (Some ''C'')" None]
      open_logger_reachable o c
    by simp
qed

section \<open>Properties of LambdaClient\<close>

subsection \<open>The command guard\<close>

text \<open>
  C3 as stated fails for the empty command name: \<open>invoke\<close> tests \<open>cmd == null\<close> only,
  and an empty name is sent to the remote function like any other, here as
  \<open>{"cmd":"","correlation_id":"123"}\<close>.
\<close>

theorem invoke_empty_command_is_sent:
  "snd (LambdaClient_invoke opened_client encode_flat decode_literal ''id1'' [[]]
          ''RequestResponse'' (Some []) (Some ''123'') (JRef 0) True
          (Inr (Some (StringPayload ''null''))))
   = [LambdaInvoke
        \<lparr> FunctionName = Some ''arn:aws:lambda:us-east-1:123456789012:function:myFunc'',
          InvocationType = ''RequestResponse'', LogType = ''None'',
          Payload = ''{'' @ quoted ''cmd'' @ '':'' @ quoted [] @ '','' @ quoted ''correlation_id''
                      @ '':'' @ quoted ''123'' @ ''}'' \<rparr>,
      ClientCallback None (Some (Decoded JNull))]"
  by (simp add: LambdaClient_invoke_def opened_client_def connection_params_def clone_def
      assign_prop_def truthy_def to_text_def encode_flat_def invoke_reply_def decode_literal_def)

text \<open>
  C3, amended. With a null command name \<open>invoke\<close> issues no remote invocation and
  leaves the store alone; its only effect is the error with code \<open>NO_COMMAND\<close>, passed to
  the callback when there is one and written to the logger otherwise.
\<close>

theorem invoke_null_command:
  "LambdaClient_invoke client stringify parse nextShort h invocationType None correlationId
     args callback reply
   = (h, if callback then [ClientCallback (Some NO_COMMAND) None]
         else [ClientLoggerError correlationId NO_COMMAND ''Failed to call %s''])"
  by (simp add: LambdaClient_invoke_def)

subsection \<open>A payload that does not decode\<close>

text \<open>
  Whenever the decoder rejects the string payload of a successful reply, the caller's
  callback is called twice: with the deserialization error, then with no error and the
  payload as it came.
\<close>

lemma invoke_reply_undecodable:
  "parse s = Inl ex \<Longrightarrow>
   invoke_reply parse correlationId True (Inr (Some (StringPayload s)))
   = [ClientCallback (Some (DESERIALIZATION_FAILED correlationId ex)) None,
      ClientCallback None (Some (Raw (StringPayload s)))]"
  by (simp add: invoke_reply_def)

text \<open>
  C4. A successful invocation whose payload is the string \<open>not json\<close>: the callback is
  called with the \<open>DESERIALIZATION_FAILED\<close> error and then a second time, with no error
  and the undecoded string as result. The claim asks for exactly one call and never the raw
  payload.
\<close>

theorem invoke_undecodable_payload:
  "snd (LambdaClient_invoke opened_client encode_flat decode_literal ''id1'' [[]]
          ''RequestResponse'' (Some ''ping'') (Some ''123'') (JRef 0) True
          (Inr (Some (StringPayload ''not json''))))
   = [LambdaInvoke
        \<lparr> FunctionName = Some ''arn:aws:lambda:us-east-1:123456789012:function:myFunc'',
          InvocationType = ''RequestResponse'', LogType = ''None'',
          Payload = ''{'' @ quoted ''cmd'' @ '':'' @ quoted ''ping'' @ '','' @ quoted ''correlation_id''
                      @ '':'' @ quoted ''123'' @ ''}'' \<rparr>,
      ClientCallback (Some (DESERIALIZATION_FAILED (Some ''123'') unexpected_token)) None,
      ClientCallback None (Some (Raw (StringPayload ''not json'')))]"
  by (simp add: LambdaClient_invoke_def opened_client_def connection_params_def clone_def
      assign_prop_def truthy_def to_text_def encode_flat_def invoke_reply_def decode_literal_def)

subsection \<open>The payload sent\<close>

text \<open>Reading a property after an assignment, and the order of the properties.\<close>

lemma map_of_set_prop:
  "map_of (set_prop props key v) key' = (if key' = key then Some v else map_of props key')"
  by (induction props) auto

lemma keys_set_prop:
  "map fst (set_prop props key v)
   = map fst props @ (if key \<in> set (map fst props) then [] else [key])"
proof (induction props)
  case Nil
  show ?case by simp
next
  case (Cons p props)
  obtain key' v' where p: "p = (key', v')"
    by (cases p)
  show ?case
  proof (cases "key' = key")
    case True
    then show ?thesis by (simp add: p)
  next
    case False
    with Cons.IH show ?thesis by (simp add: p)
  qed
qed

text \<open>
  C6. On a client that holds a connection and an SDK handle (it has been opened), with a
  command and an \<open>args\<close> object: \<open>invoke\<close> adds one object to the store, the clone, and
  leaves every object that was there, \<open>args\<close> included, as it was. The clone has the
  command under \<open>cmd\<close>, also when \<open>args\<close> had a \<open>cmd\<close> already; it has under
  \<open>correlation_id\<close> the supplied correlation id, and the generated one when none is
  supplied (null) or the supplied one is empty; every other property reads as in
  \<open>args\<close>; its properties come in the order of those of \<open>args\<close>, with \<open>cmd\<close> and
  \<open>correlation_id\<close> appended when \<open>args\<close> lacks them. The payload of the request is
  the encoding of the clone.
\<close>

theorem invoke_payload:
  assumes "client_connection client = Some connection"
    and "client_lambda client = Some lambda"
    and "a < length h"
  shows "(let (h', events) = LambdaClient_invoke client stringify parse nextShort h invocationType
                               (Some cmd) correlationId (JRef a) callback reply;
              sent = h' ! length h
          in length h' = Suc (length h) \<and> take (length h) h' = h \<and> h' ! a = h ! a \<and>
             map_of sent ''cmd'' = Some (JStr cmd) \<and>
             map_of sent ''correlation_id''
               = Some (JStr (case correlationId of
                               None \<Rightarrow> nextShort
                             | Some supplied \<Rightarrow> if supplied = [] then nextShort else supplied)) \<and>
             (\<forall>key. key \<noteq> ''cmd'' \<and> key \<noteq> ''correlation_id'' \<longrightarrow>
                    map_of sent key = map_of (h ! a) key) \<and>
             map fst sent
               = map fst (h ! a)
                   @ (if ''cmd'' \<in> set (map fst (h ! a)) then [] else [''cmd''])
                   @ (if ''correlation_id'' \<in> set (map fst (h ! a)) then []
                      else [''correlation_id'']) \<and>
             events = LambdaInvoke \<lparr> FunctionName = getArn connection,
                                     InvocationType = invocationType, LogType = ''None'',
                                     Payload = stringify h' (JRef (length h)) \<rparr>
                        # invoke_reply parse correlationId callback reply)"
proof -
  let ?id = "if truthy correlationId then to_text correlationId else nextShort"
  let ?sent = "set_prop (set_prop (h ! a) ''cmd'' (JStr cmd)) ''correlation_id'' (JStr ?id)"
  have run: "LambdaClient_invoke client stringify parse nextShort h invocationType
               (Some cmd) correlationId (JRef a) callback reply
             = (h @ [?sent],
                LambdaInvoke \<lparr> FunctionName = getArn connection,
                                InvocationType = invocationType, LogType = ''None'',
                                Payload = stringify (h @ [?sent]) (JRef (length h)) \<rparr>
                  # invoke_reply parse correlationId callback reply)"
    using assms
    by (simp add: LambdaClient_invoke_def clone_def assign_prop_def Let_def nth_append)
  have id: "?id = (case correlationId of
                     None \<Rightarrow> nextShort
                   | Some supplied \<Rightarrow> if supplied = [] then nextShort else supplied)"
    by (simp add: truthy_def to_text_def split: option.splits)
  have keys: "map fst ?sent
      = map fst (h ! a)
          @ (if ''cmd'' \<in> set (map fst (h ! a)) then [] else [''cmd''])
          @ (if ''correlation_id'' \<in> set (map fst (h ! a)) then [] else [''correlation_id''])"
    by (simp add: keys_set_prop)
  show ?thesis
    unfolding run using assms(3) id keys
    by (simp add: Let_def nth_append map_of_set_prop del: set_map)
qed

text \<open>
  The command \<open>ping\<close> with arguments that hold a \<open>cmd\<close> already,
  \<open>{"cmd":"old","name":"x"}\<close>: once with the correlation id \<open>123\<close> supplied, which
  is the one sent, and once with none, where the generated \<open>id1\<close> is sent.
\<close>

theorem invoke_payload_witness:
  "client_connection opened_client = Some connection_params \<and>
   client_lambda opened_client = Some Lambda \<and>
   (0::nat) < length [[(''cmd'', JStr ''old''), (''name'', JStr ''x'')]] \<and>
   LambdaClient_invoke opened_client encode_flat decode_literal ''id1''
     [[(''cmd'', JStr ''old''), (''name'', JStr ''x'')]]
     ''RequestResponse'' (Some ''ping'') (Some ''123'') (JRef 0) True
     (Inr (Some (StringPayload ''null'')))
   = ([[(''cmd'', JStr ''old''), (''name'', JStr ''x'')],
       [(''cmd'', JStr ''ping''), (''name'', JStr ''x''), (''correlation_id'', JStr ''123'')]],
      [LambdaInvoke
         \<lparr> FunctionName = Some ''arn:aws:lambda:us-east-1:123456789012:function:myFunc'',
           InvocationType = ''RequestResponse'', LogType = ''None'',
           Payload = ''{'' @ quoted ''cmd'' @ '':'' @ quoted ''ping'' @ '','' @ quoted ''name'' @ '':''
                       @ quoted ''x'' @ '','' @ quoted ''correlation_id'' @ '':''
                       @ quoted ''123'' @ ''}'' \<rparr>,
       ClientCallback None (Some (Decoded JNull))]) \<and>
   LambdaClient_invoke opened_client encode_flat decode_literal ''id1''
     [[(''cmd'', JStr ''old''), (''name'', JStr ''x'')]]
     ''RequestResponse'' (Some ''ping'') None (JRef 0) True
     (Inr (Some (StringPayload ''null'')))
   = ([[(''cmd'', JStr ''old''), (''name'', JStr ''x'')],
       [(''cmd'', JStr ''ping''), (''name'', JStr ''x''), (''correlation_id'', JStr ''id1'')]],
      [LambdaInvoke
         \<lparr> FunctionName = Some ''arn:aws:lambda:us-east-1:123456789012:function:myFunc'',
           InvocationType = ''RequestResponse'', LogType = ''None'',
           Payload = ''{'' @ quoted ''cmd'' @ '':'' @ quoted ''ping'' @ '','' @ quoted ''name'' @ '':''
                       @ quoted ''x'' @ '','' @ quoted ''correlation_id'' @ '':''
                       @ quoted ''id1'' @ ''}'' \<rparr>,
       ClientCallback None (Some (Decoded JNull))])"
proof -
  have c: "client_connection opened_client = Some connection_params"
    by (simp add: opened_client_def)
  have l: "client_lambda opened_client = Some Lambda"
    by (simp add: opened_client_def)
  have a: "(0::nat) < length [[(''cmd'', JStr ''old''), (''name'', JStr ''x'')]]"
    by simp
  have supplied: "LambdaClient_invoke opened_client encode_flat decode_literal ''id1''
     [[(''cmd'', JStr ''old''), (''name'', JStr ''x'')]]
     ''RequestResponse'' (Some ''ping'') (Some ''123'') (JRef 0) True
     (Inr (Some (StringPayload ''null'')))
   = ([[(''cmd'', JStr ''old''), (''name'', JStr ''x'')],
       [(''cmd'', JStr ''ping''), (''name'', JStr ''x''), (''correlation_id'', JStr ''123'')]],
      [LambdaInvoke
         \<lparr> FunctionName = Some ''arn:aws:lambda:us-east-1:123456789012:function:myFunc'',
           InvocationType = ''RequestResponse'', LogType = ''None'',
           Payload = ''{'' @ quoted ''cmd'' @ '':'' @ quoted ''ping'' @ '','' @ quoted ''name'' @ '':''
                       @ quoted ''x'' @ '','' @ quoted ''correlation_id'' @ '':''
                       @ quoted ''123'' @ ''}'' \<rparr>,
       ClientCallback None (Some (Decoded JNull))])"
    using invoke_payload [where client = opened_client and connection = connection_params
        and lambda = Lambda and a = 0 and h = "[[(''cmd'', JStr ''old''), (''name'', JStr ''x'')]]"
        and cmd = "''ping''" and correlationId = "Some ''123''" and nextShort = "''id1''"
        and stringify = encode_flat and parse = decode_literal
        and invocationType = "''RequestResponse''" and callback = True
        and reply = "Inr (Some (StringPayload ''null''))", OF c l a]
    by (simp add: LambdaClient_invoke_def opened_client_def connection_params_def clone_def
        assign_prop_def truthy_def to_text_def encode_flat_def invoke_reply_def decode_literal_def)
  have generated: "LambdaClient_invoke opened_client encode_flat decode_literal ''id1''
     [[(''cmd'', JStr ''old''), (''name'', JStr ''x'')]]
     ''RequestResponse'' (Some ''ping'') None (JRef 0) True
     (Inr (Some (StringPayload ''null'')))
   = ([[(''cmd'', JStr ''old''), (''name'', JStr ''x'')],
       [(''cmd'', JStr ''ping''), (''name'', JStr ''x''), (''correlation_id'', JStr ''id1'')]],
      [LambdaInvoke
         \<lparr> FunctionName = Some ''arn:aws:lambda:us-east-1:123456789012:function:myFunc'',
           InvocationType = ''RequestResponse'', LogType = ''None'',
           Payload = ''{'' @ quoted ''cmd'' @ '':'' @ quoted ''ping'' @ '','' @ quoted ''name'' @ '':''
                       @ quoted ''x'' @ '','' @ quoted ''correlation_id'' @ '':''
                       @ quoted ''id1'' @ ''}'' \<rparr>,
       ClientCallback None (Some (Decoded JNull))])"
    using invoke_payload [where client = opened_client and connection = connection_params
        and lambda = Lambda and a = 0 and h = "[[(''cmd'', JStr ''old''), (''name'', JStr ''x'')]]"
        and cmd = "''ping''" and correlationId = None and nextShort = "''id1''"
        and stringify = encode_flat and parse = decode_literal
        and invocationType = "''RequestResponse''" and callback = True
        and reply = "Inr (Some (StringPayload ''null''))", OF c l a]
    by (simp add: LambdaClient_invoke_def opened_client_def connection_params_def clone_def
        assign_prop_def truthy_def to_text_def encode_flat_def invoke_reply_def decode_literal_def)
  show ?thesis
    using c l a supplied generated by simp
qed

section \<open>Properties of LambdaFunction\<close>

text \<open>
  For every command that is not the name of something \<open>_actions\<close> inherits, \<open>execute\<close>
  does what the dispatch contract says: an event without command is answered with the
  \<open>NO_COMMAND\<close> error and no action runs; a command without registered action is
  answered with the \<open>NO_ACTION\<close> error, which carries the command as its detail; a
  command with a registered action runs that action on the event, with \<open>context.done\<close>
  as its callback.
\<close>

lemma execute_dispatch:
  "(event_cmd event = None \<longrightarrow>
      LambdaFunction_execute f event
        = [ContextDone (Some (Error BadRequestException (event_correlation_id event)
                                ''NO_COMMAND'' ''Cmd parameter is missing'' [] None)) None]) \<and>
   (\<forall>cmd. event_cmd event = Some cmd \<and> function_actions f cmd = None \<and>
          cmd \<notin> set Object_prototype_returning \<and> cmd \<notin> set Object_prototype_throwing \<longrightarrow>
      LambdaFunction_execute f event
        = [ContextDone (Some (NO_ACTION (event_correlation_id event) cmd)) None] \<and>
      err_code (NO_ACTION (event_correlation_id event) cmd) = ''NO_ACTION'' \<and>
      err_class (NO_ACTION (event_correlation_id event) cmd) = BadRequestException \<and>
      err_details (NO_ACTION (event_correlation_id event) cmd) = [(''command'', cmd)]) \<and>
   (\<forall>cmd action. event_cmd event = Some cmd \<and> function_actions f cmd = Some action \<longrightarrow>
      LambdaFunction_execute f event = action event)"
  by (simp add: LambdaFunction_execute_def read_action_def NO_ACTION_def withDetails_def)

text \<open>
  C5. The event \<open>{cmd: "toString", correlation_id: "123"}\<close> on a function with no
  registered action: \<open>_actions["toString"]\<close> is the function inherited from
  \<open>Object.prototype\<close>, the test \<open>action == null\<close> fails, the inherited function is
  called and returns, and \<open>context.done\<close> is never called. The claim asks for the
  \<open>NO_ACTION\<close> error on the result channel.
\<close>

theorem execute_inherited_name:
  "LambdaFunction_execute empty_function
     \<lparr> event_cmd = Some ''toString'', event_correlation_id = Some ''123'', event_params = [] \<rparr>
   = []"
  by (simp add: LambdaFunction_execute_def empty_function_def read_action_def
      Object_prototype_returning_def)

section \<open>Properties of Arn\<close>

lemma split_first_join:
  assumes "split_first c s = Some (x, y)"
  shows "s = x @ c # y"
proof -
  from assms have mem: "c \<in> set s"
    by (simp add: split_first_def split: if_splits)
  with assms have x: "x = takeWhile (\<lambda>z. z \<noteq> c) s"
    and y: "y = tl (dropWhile (\<lambda>z. z \<noteq> c) s)"
    by (simp_all add: split_first_def)
  from mem have ne: "dropWhile (\<lambda>z. z \<noteq> c) s \<noteq> []"
    by (auto simp: dropWhile_eq_Nil_conv)
  then have "hd (dropWhile (\<lambda>z. z \<noteq> c) s) = c"
    using hd_dropWhile [of "\<lambda>z. z \<noteq> c" s] by simp
  with ne y have "dropWhile (\<lambda>z. z \<noteq> c) s = c # y"
    by (cases "dropWhile (\<lambda>z. z \<noteq> c) s") auto
  then show ?thesis
    using x takeWhile_dropWhile_id [of "\<lambda>z. z \<noteq> c" s] by simp
qed

lemma split_first_cut:
  "c \<notin> set x \<Longrightarrow> split_first c (x @ c # y) = Some (x, y)"
  by (induction x) (auto simp: split_first_def)

lemma Arn_parse_toString:
  "Arn_parse s = Some a \<Longrightarrow> Arn_toString a = s"
  by (auto simp: Arn_parse_def Arn_toString_def split: option.splits if_splits prod.splits
      dest!: split_first_join)

lemma Arn_toString_parse:
  assumes "Arn_well_formed a"
  shows "Arn_parse (Arn_toString a) = Some a"
proof -
  have prefix: "split_first CHR '':'' (''arn'' @ CHR '':'' # t) = Some (''arn'', t)" for t
    by (rule split_first_cut) simp
  show ?thesis
    using assms
    by (simp add: Arn_parse_def Arn_toString_def Arn_well_formed_def split_first_cut
        prefix [simplified])
qed

text \<open>
  C8. The round trip of the Arn parser and composer, in both directions: a string that
  parses is the string form of the parts it parses to, and the string form of well-formed
  parts parses to those parts.
\<close>

theorem Arn_round_trip:
  "(Arn_parse s = Some a \<longrightarrow> Arn_toString a = s) \<and>
   (Arn_well_formed b \<longrightarrow> Arn_parse (Arn_toString b) = Some b)"
  using Arn_parse_toString Arn_toString_parse by blast

text \<open>The Arn of a function, as string and as parts.\<close>

theorem Arn_round_trip_witness:
  "Arn_parse ''arn:aws:lambda:us-east-1:123456789012:function/myFunc'' = Some function_arn \<and>
   Arn_toString function_arn = ''arn:aws:lambda:us-east-1:123456789012:function/myFunc'' \<and>
   Arn_well_formed function_arn \<and>
   Arn_parse (Arn_toString function_arn) = Some function_arn"
proof -
  have p: "Arn_parse ''arn:aws:lambda:us-east-1:123456789012:function/myFunc'' = Some function_arn"
    by (simp add: Arn_parse_def split_first_def function_arn_def)
  have w: "Arn_well_formed function_arn"
    by (simp add: Arn_well_formed_def function_arn_def)
  show ?thesis
    using Arn_round_trip [of "''arn:aws:lambda:us-east-1:123456789012:function/myFunc''"
        function_arn function_arn] p w
    by simp
qed

end
